theory Spec2Isabelle
  imports Main "HOL-Library.Word"
begin

section \<open>The favicon generator of create\_favicons.py\<close>

text \<open>
  The script reads one SVG file, rasterizes it at the sizes 16, 32 and 180, writes each
  raster as a PNG file, keeps the 16 and 32 pixel images in memory and finally saves an
  ICO file. It is embedded as a function on an explicit world: the file system and the
  sequence of calls the run has made so far. The two libraries the script calls
  (cairosvg's \<open>svg2png\<close>, Pillow's \<open>Image.open\<close> and \<open>Image.save\<close>) are not part of
  the repository; they are fields of an environment record, each a function that may
  fail, together with the permissions of the file system. The block at the top of the
  script that installs the two packages when they cannot be imported runs before the
  function and is not part of the model.
\<close>

subsection \<open>Data\<close>

type_synonym bytes = "8 word list"

type_synonym path = string

text \<open>
  Every exception of the script is uncaught. \<open>IOError\<close> is what \<open>open\<close> raises,
  \<open>ConversionError\<close> stands for whatever \<open>svg2png\<close> raises on data it cannot
  rasterize, \<open>UnidentifiedImageError\<close> for a failing \<open>Image.open\<close>,
  \<open>SaveError\<close> for what \<open>Image.save\<close> raises from decoding or encoding the image, and
  \<open>UnicodeEncodeError\<close> is what \<open>print\<close> raises where the standard output cannot
  take the message (the messages hold U+2713 and U+2705).
\<close>

datatype error =
  IOError | ConversionError | UnidentifiedImageError | SaveError | UnicodeEncodeError

text \<open>
  The calls a run makes, in the order it makes them. An event is recorded when the call
  is made, also when the call then raises.
\<close>

datatype 'img event =
    Ev_open_rb path
  | Ev_open_wb path
  | Ev_write path bytes
  | Ev_svg2png bytes nat nat
  | Ev_Image_open bytes
  | Ev_save 'img path "(nat \<times> nat) list"
  | Ev_print string

text \<open>
  The environment of a run. \<open>svg2png\<close>, \<open>Image_open\<close> and \<open>save_ICO\<close> are the
  library functions, \<open>None\<close> where they raise. \<open>Image.open\<close> is lazy: \<open>load_ok\<close> says
  whether the pixel data of an image can be decoded when \<open>save\<close> asks for it, and
  \<open>save_residue\<close> is what an encoder that raises has written to the file by then.
  \<open>can_read\<close> and \<open>can_write\<close> are the permissions of the file system, and
  \<open>can_print\<close> says which messages the standard output can take.
\<close>

record 'img env =
  svg2png :: "bytes \<Rightarrow> nat \<Rightarrow> nat \<Rightarrow> bytes option"
  Image_open :: "bytes \<Rightarrow> 'img option"
  load_ok :: "'img \<Rightarrow> bool"
  save_ICO :: "'img \<Rightarrow> (nat \<times> nat) list \<Rightarrow> bytes option"
  save_residue :: "'img \<Rightarrow> (nat \<times> nat) list \<Rightarrow> bytes"
  can_read :: "path \<Rightarrow> bool"
  can_write :: "path \<Rightarrow> bool"
  can_print :: "string \<Rightarrow> bool"

record 'img world =
  files :: "path \<rightharpoonup> bytes"
  events :: "'img event list"

type_synonym ('img, 'a) action = "'img world \<Rightarrow> (error + 'a) \<times> 'img world"

subsection \<open>The primitives the script calls\<close>

definition record_event :: "'img event \<Rightarrow> 'img world \<Rightarrow> 'img world" where
  "record_event e w = w\<lparr>events := events w @ [e]\<rparr>"

text \<open>\<open>os.path.join\<close> of two components, as posixpath defines it.\<close>

definition os_path_join :: "path \<Rightarrow> path \<Rightarrow> path" where
  "os_path_join a b =
     (if b \<noteq> [] \<and> hd b = CHR ''/'' then b
      else if a = [] \<or> last a = CHR ''/'' then a @ b
      else a @ ''/'' @ b)"

text \<open>
  \<open>with open(p, 'rb') as f: f.read()\<close>: raises when the file is absent or may not be
  read.
\<close>

definition read_file :: "'img env \<Rightarrow> path \<Rightarrow> ('img, bytes) action" where
  "read_file env p w =
     (let w1 = record_event (Ev_open_rb p) w in
      case files w p of
        None \<Rightarrow> (Inl IOError, w1)
      | Some d \<Rightarrow> if can_read env p then (Inr d, w1) else (Inl IOError, w1))"

text \<open>
  \<open>with open(p, 'wb') as f: f.write(d)\<close>: opening raises when the path may not be
  written and then leaves the file system alone; otherwise the file is created or
  truncated and receives the data. A write to an open file is taken to succeed.
\<close>

definition write_file :: "'img env \<Rightarrow> path \<Rightarrow> bytes \<Rightarrow> ('img, unit) action" where
  "write_file env p d w =
     (let w1 = record_event (Ev_open_wb p) w in
      if can_write env p
      then (Inr (), (record_event (Ev_write p d) w1)\<lparr>files := (files w)(p \<mapsto> d)\<rparr>)
      else (Inl IOError, w1))"

definition rasterize :: "'img env \<Rightarrow> bytes \<Rightarrow> nat \<Rightarrow> nat \<Rightarrow> ('img, bytes) action" where
  "rasterize env svg_data width height w =
     (let w1 = record_event (Ev_svg2png svg_data width height) w in
      case svg2png env svg_data width height of
        None \<Rightarrow> (Inl ConversionError, w1)
      | Some png_data \<Rightarrow> (Inr png_data, w1))"

text \<open>\<open>Image.open(io.BytesIO(png_data))\<close>: reads the buffer in memory, no file.\<close>

definition open_image :: "'img env \<Rightarrow> bytes \<Rightarrow> ('img, 'img) action" where
  "open_image env png_data w =
     (let w1 = record_event (Ev_Image_open png_data) w in
      case Image_open env png_data of
        None \<Rightarrow> (Inl UnidentifiedImageError, w1)
      | Some img \<Rightarrow> (Inr img, w1))"

text \<open>
  \<open>img.save(p, format='ICO', sizes=...)\<close>, in the order of the library: it decodes the
  pixel data of the image, opens the path with \<open>'w+b'\<close> (the file is created or
  truncated), and runs the encoder on the open file. When the decoding or the opening
  raises, the file system is left alone. When the encoder raises, a file that the call
  has created is removed again, and a file that was there before keeps what the encoder
  had written.
\<close>

definition save_image :: "'img env \<Rightarrow> 'img \<Rightarrow> path \<Rightarrow> (nat \<times> nat) list \<Rightarrow> ('img, unit) action" where
  "save_image env img p szs w =
     (let w1 = record_event (Ev_save img p szs) w in
      if load_ok env img
      then (if can_write env p
            then (case save_ICO env img szs of
                    None \<Rightarrow>
                      (Inl SaveError,
                       w1\<lparr>files := (case files w p of
                                      None \<Rightarrow> files w
                                    | Some old \<Rightarrow> (files w)(p \<mapsto> save_residue env img szs))\<rparr>)
                  | Some ico_data \<Rightarrow> (Inr (), w1\<lparr>files := (files w)(p \<mapsto> ico_data)\<rparr>))
            else (Inl IOError, w1))
      else (Inl SaveError, w1))"

text \<open>
  \<open>print(s)\<close>: raises, with nothing written, where the standard output cannot take the
  message.
\<close>

definition print :: "'img env \<Rightarrow> string \<Rightarrow> ('img, unit) action" where
  "print env s w =
     (let w1 = record_event (Ev_print s) w in
      if can_print env s then (Inr (), w1) else (Inl UnicodeEncodeError, w1))"

text \<open>
  The message \<open>f"\<checkmark> Created {p}"\<close>; the check mark U+2713 is written as its three
  UTF-8 bytes.
\<close>

definition created_msg :: "path \<Rightarrow> string" where
  "created_msg p = [CHR 0xE2, CHR 0x9C, CHR 0x93] @ '' Created '' @ p"

subsection \<open>create\_favicon\_from\_svg\<close>

definition sizes :: "path \<Rightarrow> (nat \<times> path) list" where
  "sizes output_dir =
     [(16, os_path_join output_dir ''favicon-16x16.png''),
      (32, os_path_join output_dir ''favicon-32x32.png''),
      (180, os_path_join output_dir ''apple-touch-icon.png'')]"

text \<open>
  The loop \<open>for size, output_path in sizes\<close>; \<open>png_images\<close> is the list the loop
  appends to. The loop variable \<open>size\<close> is \<open>sz\<close> here (\<open>size\<close> is a constant of HOL).
\<close>

fun size_loop ::
  "'img env \<Rightarrow> bytes \<Rightarrow> (nat \<times> path) list \<Rightarrow> 'img list \<Rightarrow> ('img, 'img list) action" where
  "size_loop env svg_data [] png_images w = (Inr png_images, w)"
| "size_loop env svg_data ((sz, output_path) # rest) png_images w =
     (case rasterize env svg_data sz sz w of
        (Inl e, w1) \<Rightarrow> (Inl e, w1)
      | (Inr png_data, w1) \<Rightarrow>
          (case write_file env output_path png_data w1 of
             (Inl e, w2) \<Rightarrow> (Inl e, w2)
           | (Inr _, w2) \<Rightarrow>
               (case print env (created_msg output_path) w2 of
                  (Inl e, w3) \<Rightarrow> (Inl e, w3)
                | (Inr _, w3) \<Rightarrow>
                    if sz \<in> set [16, 32]
                    then (case open_image env png_data w3 of
                            (Inl e, w4) \<Rightarrow> (Inl e, w4)
                          | (Inr img, w4) \<Rightarrow>
                              size_loop env svg_data rest (png_images @ [img]) w4)
                    else size_loop env svg_data rest png_images w3)))"

text \<open>
  The block after the loop: \<open>if png_images:\<close> saves \<open>png_images[0]\<close> as
  \<open>favicon.ico\<close> with \<open>sizes=[(16, 16), (32, 32)]\<close>.
\<close>

definition ico_sizes :: "(nat \<times> nat) list" where
  "ico_sizes = [(16, 16), (32, 32)]"

definition ico_step :: "'img env \<Rightarrow> path \<Rightarrow> 'img list \<Rightarrow> ('img, unit) action" where
  "ico_step env output_dir png_images w =
     (case png_images of
        [] \<Rightarrow> (Inr (), w)
      | img0 # _ \<Rightarrow>
          (let ico_path = os_path_join output_dir ''favicon.ico'' in
           case save_image env img0 ico_path ico_sizes w of
             (Inl e, w1) \<Rightarrow> (Inl e, w1)
           | (Inr _, w1) \<Rightarrow> print env (created_msg ico_path) w1))"

definition create_favicon_from_svg :: "'img env \<Rightarrow> path \<Rightarrow> path \<Rightarrow> ('img, unit) action" where
  "create_favicon_from_svg env svg_path output_dir w =
     (case read_file env svg_path w of
        (Inl e, w1) \<Rightarrow> (Inl e, w1)
      | (Inr svg_data, w1) \<Rightarrow>
          (case size_loop env svg_data (sizes output_dir) [] w1 of
             (Inl e, w2) \<Rightarrow> (Inl e, w2)
           | (Inr png_images, w2) \<Rightarrow> ico_step env output_dir png_images w2))"

text \<open>
  The script's entry point, with its fixed paths. The last message starts with a newline
  and U+2705.
\<close>

definition main :: "'img env \<Rightarrow> ('img, unit) action" where
  "main env w =
     (let svg_file = ''static/favicon.svg'';
          output_directory = ''static'' in
      case print env ''Creating favicon files from SVG...'' w of
        (Inl e, w1) \<Rightarrow> (Inl e, w1)
      | (Inr _, w1) \<Rightarrow>
          (case create_favicon_from_svg env svg_file output_directory w1 of
             (Inl e, w2) \<Rightarrow> (Inl e, w2)
           | (Inr _, w2) \<Rightarrow>
               print env ([CHR 0x0A, CHR 0xE2, CHR 0x9C, CHR 0x85]
                          @ '' All favicon files created successfully!'') w2))"

subsection \<open>What a run did: readings of the event sequence\<close>

text \<open>The events a run has added to the world it started from.\<close>

definition new_events :: "'img world \<Rightarrow> 'img world \<Rightarrow> 'img event list" where
  "new_events w w' = drop (length (events w)) (events w')"

text \<open>
  The paths a run has tried to open for writing, by \<open>open(p, 'wb')\<close> or by
  \<open>img.save(p, ...)\<close>, in order.
\<close>

definition write_targets :: "'img event list \<Rightarrow> path list" where
  "write_targets evs =
     concat (map (\<lambda>e. case e of Ev_open_wb p \<Rightarrow> [p] | Ev_save img p szs \<Rightarrow> [p] | _ \<Rightarrow> []) evs)"

definition read_targets :: "'img event list \<Rightarrow> path list" where
  "read_targets evs = concat (map (\<lambda>e. case e of Ev_open_rb p \<Rightarrow> [p] | _ \<Rightarrow> []) evs)"

definition svg2png_calls :: "'img event list \<Rightarrow> (bytes \<times> nat \<times> nat) list" where
  "svg2png_calls evs =
     concat (map (\<lambda>e. case e of Ev_svg2png d width height \<Rightarrow> [(d, width, height)] | _ \<Rightarrow> []) evs)"

definition png_writes :: "'img event list \<Rightarrow> (path \<times> bytes) list" where
  "png_writes evs = concat (map (\<lambda>e. case e of Ev_write p d \<Rightarrow> [(p, d)] | _ \<Rightarrow> []) evs)"

definition Image_open_calls :: "'img event list \<Rightarrow> bytes list" where
  "Image_open_calls evs = concat (map (\<lambda>e. case e of Ev_Image_open d \<Rightarrow> [d] | _ \<Rightarrow> []) evs)"

definition save_calls :: "'img event list \<Rightarrow> ('img \<times> path \<times> (nat \<times> nat) list) list" where
  "save_calls evs =
     concat (map (\<lambda>e. case e of Ev_save img p szs \<Rightarrow> [(img, p, szs)] | _ \<Rightarrow> []) evs)"

definition printed :: "'img event list \<Rightarrow> string list" where
  "printed evs = concat (map (\<lambda>e. case e of Ev_print s \<Rightarrow> [s] | _ \<Rightarrow> []) evs)"

text \<open>The three PNG paths and the ICO path, in the order the script writes them.\<close>

definition output_paths :: "path \<Rightarrow> path list" where
  "output_paths output_dir =
     map snd (sizes output_dir) @ [os_path_join output_dir ''favicon.ico'']"

text \<open>
  Every \<open>open(p, 'wb')\<close> of the sequence comes directly after a call of \<open>svg2png\<close>
  that returned, made for the size that the list pairs with \<open>p\<close>.
\<close>

fun write_after_raster :: "'img env \<Rightarrow> (nat \<times> path) list \<Rightarrow> 'img event list \<Rightarrow> bool" where
  "write_after_raster env szs [] = True"
| "write_after_raster env szs (Ev_svg2png d width height # Ev_open_wb p # evs) =
     (svg2png env d width height \<noteq> None \<and> width = height \<and> (width, p) \<in> set szs
      \<and> write_after_raster env szs evs)"
| "write_after_raster env szs (Ev_open_wb p # evs) = False"
| "write_after_raster env szs (e # evs) = write_after_raster env szs evs"

subsection \<open>An example environment\<close>

text \<open>
  A small environment on which the theorems below are instantiated. Its rasterizer
  accepts one document and answers with the two bytes width and height; its image is
  the pair of the size read from such a buffer and the buffer; its ICO encoder follows
  the rule Pillow documents for \<open>sizes\<close> (a size larger than the image, or than 256,
  is ignored) and answers with the number of frames followed by the width and height of
  each. Every image can be decoded, an encoder that raises has written nothing, every
  path may be read and written, and every message can be printed.
\<close>

type_synonym ex_image = "(nat \<times> nat) \<times> bytes"

definition ex_svg :: bytes where
  "ex_svg = [0x3C, 0x73, 0x76, 0x67, 0x2F, 0x3E]"

definition ex_bad_svg :: bytes where
  "ex_bad_svg = [0x3C]"

definition ex_svg2png :: "bytes \<Rightarrow> nat \<Rightarrow> nat \<Rightarrow> bytes option" where
  "ex_svg2png d width height =
     (if d = ex_svg then Some [of_nat width, of_nat height] else None)"

definition ex_Image_open :: "bytes \<Rightarrow> ex_image option" where
  "ex_Image_open b =
     (case b of width # height # _ \<Rightarrow> Some ((unat width, unat height), b) | _ \<Rightarrow> None)"

definition ex_save_ICO :: "ex_image \<Rightarrow> (nat \<times> nat) list \<Rightarrow> bytes option" where
  "ex_save_ICO img szs =
     (let frames = filter (\<lambda>(width, height). width \<le> fst (fst img) \<and> height \<le> snd (fst img)
                                         \<and> width \<le> 256 \<and> height \<le> 256) szs
      in Some (of_nat (length frames)
               # concat (map (\<lambda>(width, height). [of_nat width, of_nat height]) frames)))"

definition ex_dims :: "bytes \<Rightarrow> nat \<times> nat" where
  "ex_dims b = (case b of width # height # _ \<Rightarrow> (unat width, unat height) | _ \<Rightarrow> (0, 0))"

definition ex_env :: "ex_image env" where
  "ex_env = \<lparr>svg2png = ex_svg2png, Image_open = ex_Image_open, load_ok = (\<lambda>img. True),
            save_ICO = ex_save_ICO, save_residue = (\<lambda>img szs. []),
            can_read = (\<lambda>p. True), can_write = (\<lambda>p. True), can_print = (\<lambda>s. True)\<rparr>"

definition ex_world :: "bytes \<Rightarrow> ex_image world" where
  "ex_world d = \<lparr>files = [''static/favicon.svg'' \<mapsto> d], events = []\<rparr>"

definition ex_empty_world :: "ex_image world" where
  "ex_empty_world = \<lparr>files = Map.empty, events = []\<rparr>"

definition ex_img16 :: ex_image where
  "ex_img16 = ((16, 16), [16, 16])"

definition ex_img32 :: ex_image where
  "ex_img32 = ((32, 32), [32, 32])"

text \<open>
  The world the script leaves when it runs in the example environment on the world that
  holds the document at \<open>static/favicon.svg\<close>, with \<open>static\<close> as output directory.
\<close>

definition ex_final :: "ex_image world" where
  "ex_final =
     \<lparr>files = [''static/favicon.svg'' \<mapsto> ex_svg,
               ''static/favicon-16x16.png'' \<mapsto> [16, 16],
               ''static/favicon-32x32.png'' \<mapsto> [32, 32],
               ''static/apple-touch-icon.png'' \<mapsto> [180, 180],
               ''static/favicon.ico'' \<mapsto> [1, 16, 16]],
      events =
        [Ev_open_rb ''static/favicon.svg'',
         Ev_svg2png ex_svg 16 16,
         Ev_open_wb ''static/favicon-16x16.png'',
         Ev_write ''static/favicon-16x16.png'' [16, 16],
         Ev_print (created_msg ''static/favicon-16x16.png''),
         Ev_Image_open [16, 16],
         Ev_svg2png ex_svg 32 32,
         Ev_open_wb ''static/favicon-32x32.png'',
         Ev_write ''static/favicon-32x32.png'' [32, 32],
         Ev_print (created_msg ''static/favicon-32x32.png''),
         Ev_Image_open [32, 32],
         Ev_svg2png ex_svg 180 180,
         Ev_open_wb ''static/apple-touch-icon.png'',
         Ev_write ''static/apple-touch-icon.png'' [180, 180],
         Ev_print (created_msg ''static/apple-touch-icon.png''),
         Ev_save ex_img16 ''static/favicon.ico'' [(16, 16), (32, 32)],
         Ev_print (created_msg ''static/favicon.ico'')]\<rparr>"

text \<open>
  The example environment with a rasterizer that raises whenever the width asked for is
  32, and the world the script leaves there: the 16 pixel file is written, nothing else.
\<close>

definition ex_env_no32 :: "ex_image env" where
  "ex_env_no32 =
     ex_env\<lparr>svg2png := (\<lambda>d width height. if width = 32 then None else ex_svg2png d width height)\<rparr>"

definition ex_stopped_at_32 :: "ex_image world" where
  "ex_stopped_at_32 =
     \<lparr>files = [''static/favicon.svg'' \<mapsto> ex_svg,
               ''static/favicon-16x16.png'' \<mapsto> [16, 16]],
      events =
        [Ev_open_rb ''static/favicon.svg'',
         Ev_svg2png ex_svg 16 16,
         Ev_open_wb ''static/favicon-16x16.png'',
         Ev_write ''static/favicon-16x16.png'' [16, 16],
         Ev_print (created_msg ''static/favicon-16x16.png''),
         Ev_Image_open [16, 16],
         Ev_svg2png ex_svg 32 32]\<rparr>"

section \<open>Properties\<close>

subsection \<open>Auxiliary facts\<close>

lemma files_record_event [simp]: "files (record_event e w) = files w"
  by (simp add: record_event_def)

lemma events_record_event [simp]: "events (record_event e w) = events w @ [e]"
  by (simp add: record_event_def)

lemma new_events_append [simp]: "events w' = events w @ evs \<Longrightarrow> new_events w w' = evs"
  by (simp add: new_events_def)

lemma write_targets_simps [simp]:
  "write_targets [] = []"
  "write_targets (Ev_open_rb p # evs) = write_targets evs"
  "write_targets (Ev_open_wb p # evs) = p # write_targets evs"
  "write_targets (Ev_write p d # evs) = write_targets evs"
  "write_targets (Ev_svg2png d a b # evs) = write_targets evs"
  "write_targets (Ev_Image_open d # evs) = write_targets evs"
  "write_targets (Ev_save img p szs # evs) = p # write_targets evs"
  "write_targets (Ev_print s # evs) = write_targets evs"
  "write_targets (evs @ evs') = write_targets evs @ write_targets evs'"
  by (simp_all add: write_targets_def)

lemma os_path_join_relative:
  "b \<noteq> [] \<Longrightarrow> hd b \<noteq> CHR ''/'' \<Longrightarrow>
   os_path_join a b = (if a = [] \<or> last a = CHR ''/'' then a @ b else a @ ''/'' @ b)"
  by (simp add: os_path_join_def)

lemma os_path_join_inj:
  "b \<noteq> [] \<Longrightarrow> hd b \<noteq> CHR ''/'' \<Longrightarrow> c \<noteq> [] \<Longrightarrow> hd c \<noteq> CHR ''/'' \<Longrightarrow>
   (os_path_join a b = os_path_join a c) = (b = c)"
  by (simp add: os_path_join_relative)

lemma distinct_output_paths: "distinct (output_paths output_dir)"
  by (simp add: output_paths_def sizes_def os_path_join_inj)

lemmas prim_defs = rasterize_def write_file_def open_image_def save_image_def print_def

lemmas run_defs = create_favicon_from_svg_def read_file_def sizes_def prim_defs
  ico_step_def output_paths_def

lemmas ex_defs = ex_env_def ex_world_def ex_empty_world_def ex_svg_def ex_bad_svg_def
  ex_svg2png_def ex_Image_open_def ex_save_ICO_def ex_dims_def ex_img16_def ex_img32_def

lemmas obs_defs = svg2png_calls_def png_writes_def save_calls_def printed_def
  read_targets_def Image_open_calls_def

text \<open>
  The run that succeeds, in full: what must hold for it, and the world it leaves.
\<close>

lemma run_ok:
  assumes "files w svg_path = Some d" and "can_read env svg_path"
    and "svg2png env d 16 16 = Some png16"
    and "svg2png env d 32 32 = Some png32"
    and "svg2png env d 180 180 = Some png180"
    and "Image_open env png16 = Some img16"
    and "Image_open env png32 = Some img32"
    and "load_ok env img16"
    and "save_ICO env img16 ico_sizes = Some ico"
    and "\<forall>p \<in> set (output_paths output_dir). can_write env p"
    and "\<forall>p \<in> set (output_paths output_dir). can_print env (created_msg p)"
  shows "create_favicon_from_svg env svg_path output_dir w =
    (Inr (), w\<lparr>files := (files w)
          (os_path_join output_dir ''favicon-16x16.png'' \<mapsto> png16,
           os_path_join output_dir ''favicon-32x32.png'' \<mapsto> png32,
           os_path_join output_dir ''apple-touch-icon.png'' \<mapsto> png180,
           os_path_join output_dir ''favicon.ico'' \<mapsto> ico),
        events := events w @
          [Ev_open_rb svg_path,
           Ev_svg2png d 16 16,
           Ev_open_wb (os_path_join output_dir ''favicon-16x16.png''),
           Ev_write (os_path_join output_dir ''favicon-16x16.png'') png16,
           Ev_print (created_msg (os_path_join output_dir ''favicon-16x16.png'')),
           Ev_Image_open png16,
           Ev_svg2png d 32 32,
           Ev_open_wb (os_path_join output_dir ''favicon-32x32.png''),
           Ev_write (os_path_join output_dir ''favicon-32x32.png'') png32,
           Ev_print (created_msg (os_path_join output_dir ''favicon-32x32.png'')),
           Ev_Image_open png32,
           Ev_svg2png d 180 180,
           Ev_open_wb (os_path_join output_dir ''apple-touch-icon.png''),
           Ev_write (os_path_join output_dir ''apple-touch-icon.png'') png180,
           Ev_print (created_msg (os_path_join output_dir ''apple-touch-icon.png'')),
           Ev_save img16 (os_path_join output_dir ''favicon.ico'') ico_sizes,
           Ev_print (created_msg (os_path_join output_dir ''favicon.ico''))]\<rparr>)"
  using assms
  by (simp add: run_defs record_event_def Let_def)

lemma run_ok_inv:
  assumes "create_favicon_from_svg env svg_path output_dir w = (Inr u, w')"
  shows "\<exists>d png16 png32 png180 img16 img32 ico.
    files w svg_path = Some d \<and> can_read env svg_path \<and>
    svg2png env d 16 16 = Some png16 \<and>
    svg2png env d 32 32 = Some png32 \<and>
    svg2png env d 180 180 = Some png180 \<and>
    Image_open env png16 = Some img16 \<and>
    Image_open env png32 = Some img32 \<and>
    load_ok env img16 \<and>
    save_ICO env img16 ico_sizes = Some ico \<and>
    (\<forall>p \<in> set (output_paths output_dir). can_write env p) \<and>
    (\<forall>p \<in> set (output_paths output_dir). can_print env (created_msg p))"
  using assms
  by (auto simp: run_defs Let_def split: option.splits if_splits)

text \<open>What the loop touches, for any list of sizes.\<close>

lemma size_loop_raster_fail:
  "i < length szs \<Longrightarrow> svg2png env d (fst (szs ! i)) (fst (szs ! i)) = None \<Longrightarrow>
   size_loop env d szs imgs w = (r, w') \<Longrightarrow>
   \<exists>e evs. r = Inl e \<and> events w' = events w @ evs \<and>
     set (write_targets evs) \<subseteq> snd ` set (take i szs) \<and>
     (\<forall>p. p \<notin> snd ` set (take i szs) \<longrightarrow> files w' p = files w p)"
proof (induction szs arbitrary: i imgs w)
  case Nil
  then show ?case by simp
next
  case (Cons a szs)
  obtain sz output_path where a: "a = (sz, output_path)" by (cases a)
  show ?case
  proof (cases i)
    case 0
    then show ?thesis using Cons.prems unfolding a
      by (auto simp: rasterize_def)
  next
    case (Suc j)
    then show ?thesis
      using Cons.prems Cons.IH[of j] unfolding a
      by (fastforce simp: prim_defs Let_def split: option.splits if_splits)
  qed
qed

lemma run_write_after_raster:
  "create_favicon_from_svg env svg_path output_dir w = (r, w') \<Longrightarrow>
   write_after_raster env (sizes output_dir) (new_events w w')"
  by (auto simp: run_defs Let_def new_events_def split: option.splits if_splits)

lemma nth_notin_take:
  "distinct xs \<Longrightarrow> i \<le> j \<Longrightarrow> j < length xs \<Longrightarrow> xs ! j \<notin> set (take i xs)"
  by (metis distinct_conv_nth in_set_conv_nth length_take min_less_iff_conj nth_take not_le)

text \<open>The example runs, evaluated.\<close>

lemma ex_paths:
  "os_path_join ''static'' ''favicon-16x16.png'' = ''static/favicon-16x16.png''"
  "os_path_join ''static'' ''favicon-32x32.png'' = ''static/favicon-32x32.png''"
  "os_path_join ''static'' ''apple-touch-icon.png'' = ''static/apple-touch-icon.png''"
  "os_path_join ''static'' ''favicon.ico'' = ''static/favicon.ico''"
  by (simp_all add: os_path_join_def)

lemma ex_output_paths:
  "output_paths ''static'' =
     [''static/favicon-16x16.png'', ''static/favicon-32x32.png'',
      ''static/apple-touch-icon.png'', ''static/favicon.ico'']"
  by (simp add: output_paths_def sizes_def ex_paths)

lemma ex_sizes:
  "sizes ''static'' =
     [(16, ''static/favicon-16x16.png''), (32, ''static/favicon-32x32.png''),
      (180, ''static/apple-touch-icon.png'')]"
  by (simp add: sizes_def ex_paths)

lemma ex_run:
  "create_favicon_from_svg ex_env ''static/favicon.svg'' ''static'' (ex_world ex_svg)
     = (Inr (), ex_final)"
  by (simp add: create_favicon_from_svg_def read_file_def ex_sizes prim_defs ico_step_def
      ex_paths ico_sizes_def ex_defs ex_final_def record_event_def Let_def)

lemma ex_hyps:
  "files (ex_world ex_svg) ''static/favicon.svg'' = Some ex_svg"
  "can_read ex_env ''static/favicon.svg''"
  "svg2png ex_env ex_svg 16 16 = Some [16, 16]"
  "svg2png ex_env ex_svg 32 32 = Some [32, 32]"
  "svg2png ex_env ex_svg 180 180 = Some [180, 180]"
  "Image_open ex_env [16, 16] = Some ex_img16"
  "Image_open ex_env [32, 32] = Some ex_img32"
  "save_ICO ex_env ex_img16 ico_sizes = Some [1, 16, 16]"
  by (auto simp: ex_defs ico_sizes_def)



lemma ex_rerun_pair:
  "create_favicon_from_svg ex_env ''static/favicon.svg'' ''static'' ex_final
     = (fst (create_favicon_from_svg ex_env ''static/favicon.svg'' ''static'' ex_final),
        snd (create_favicon_from_svg ex_env ''static/favicon.svg'' ''static'' ex_final))"
  by simp

lemma ex_same_input:
  "files (ex_world ex_svg) ''static/favicon.svg'' = files ex_final ''static/favicon.svg''"
  by (simp add: ex_world_def ex_final_def)

lemma ex_no32_run:
  "create_favicon_from_svg ex_env_no32 ''static/favicon.svg'' ''static'' (ex_world ex_svg)
     = (Inl ConversionError, ex_stopped_at_32)"
  by (simp add: create_favicon_from_svg_def read_file_def ex_sizes prim_defs ico_step_def
      ex_paths ico_sizes_def ex_defs ex_env_no32_def ex_stopped_at_32_def record_event_def
      Let_def)

subsection \<open>The claims\<close>

text \<open>
  C10. When the list of retained images is empty after the loop, the block that makes
  the ICO file does nothing: it returns without an error and leaves the world as it was,
  so that no \<open>favicon.ico\<close> is written and no message is printed.
\<close>

theorem ico_step_skipped_on_empty:
  "ico_step env output_dir [] w = (Inr (), w)"
  by (simp add: ico_step_def)

text \<open>
  C4. When the source file is absent or may not be read, the run raises \<open>IOError\<close>
  from loading the bytes: the file system is left as it was, and the only call the run
  has made is the attempt to open the source for reading.
\<close>

theorem missing_input_aborts:
  assumes "files w svg_path = None \<or> \<not> can_read env svg_path"
  shows "\<exists>w'. create_favicon_from_svg env svg_path output_dir w = (Inl IOError, w')
           \<and> files w' = files w
           \<and> new_events w w' = [Ev_open_rb svg_path]
           \<and> write_targets (new_events w w') = []"
  using assms
  by (auto simp: create_favicon_from_svg_def read_file_def Let_def split: option.splits)

theorem missing_input_aborts_witness:
  "files ex_empty_world ''static/favicon.svg'' = None
   \<and> (\<exists>w'. create_favicon_from_svg ex_env ''static/favicon.svg'' ''static'' ex_empty_world
               = (Inl IOError, w')
           \<and> files w' = files ex_empty_world
           \<and> new_events ex_empty_world w' = [Ev_open_rb ''static/favicon.svg'']
           \<and> write_targets (new_events ex_empty_world w') = [])"
  using missing_input_aborts [of ex_empty_world "''static/favicon.svg''" ex_env "''static''"]
  by (simp add: ex_empty_world_def)

text \<open>
  C3. When the source can be read and the rasterizer raises on its bytes at size 16,
  the first size of the list, the run raises \<open>ConversionError\<close> there: the rasterizer
  has been called once, for 16 by 16, and the file system is left as it was, so no
  output for size 16 (nor any other) is written.
\<close>

theorem malformed_input_aborts:
  assumes "files w svg_path = Some d" and "can_read env svg_path"
    and "svg2png env d 16 16 = None"
  shows "\<exists>w'. create_favicon_from_svg env svg_path output_dir w = (Inl ConversionError, w')
           \<and> files w' = files w
           \<and> new_events w w' = [Ev_open_rb svg_path, Ev_svg2png d 16 16]
           \<and> write_targets (new_events w w') = []"
  using assms
  by (simp add: create_favicon_from_svg_def read_file_def sizes_def rasterize_def Let_def)

theorem malformed_input_aborts_witness:
  "files (ex_world ex_bad_svg) ''static/favicon.svg'' = Some ex_bad_svg
   \<and> can_read ex_env ''static/favicon.svg''
   \<and> svg2png ex_env ex_bad_svg 16 16 = None
   \<and> (\<exists>w'. create_favicon_from_svg ex_env ''static/favicon.svg'' ''static''
                (ex_world ex_bad_svg) = (Inl ConversionError, w')
           \<and> files w' = files (ex_world ex_bad_svg)
           \<and> new_events (ex_world ex_bad_svg) w'
               = [Ev_open_rb ''static/favicon.svg'', Ev_svg2png ex_bad_svg 16 16]
           \<and> write_targets (new_events (ex_world ex_bad_svg) w') = [])"
  using malformed_input_aborts
    [of "ex_world ex_bad_svg" "''static/favicon.svg''" ex_bad_svg ex_env "''static''"]
  by (simp add: ex_defs)



text \<open>
  C6. Every \<open>open(p, 'wb')\<close> of a run comes directly after a call of the rasterizer
  that returned, made for the size of \<open>p\<close>. And when the rasterizer raises on the
  source at the size in position \<open>i\<close> of the list, the run does not return normally,
  and the output file at any position from \<open>i\<close> on (the file of that size, of every later
  size, and \<open>favicon.ico\<close>) has the content it had before and has not been opened for
  writing.
\<close>

theorem raster_failure_leaves_files:
  assumes d: "files w svg_path = Some d"
    and i: "i < length (sizes output_dir)" and s: "fst (sizes output_dir ! i) = s"
    and fail: "svg2png env d s s = None"
    and run: "create_favicon_from_svg env svg_path output_dir w = (r, w')"
    and j: "i \<le> j" "j < length (output_paths output_dir)"
  shows "r \<noteq> Inr ()
     \<and> write_after_raster env (sizes output_dir) (new_events w w')
     \<and> files w' (output_paths output_dir ! j) = files w (output_paths output_dir ! j)
     \<and> output_paths output_dir ! j \<notin> set (write_targets (new_events w w'))"
proof (cases "can_read env svg_path")
  case False
  with d run show ?thesis
    by (auto simp: create_favicon_from_svg_def read_file_def Let_def)
next
  case True
  define w1 where "w1 = record_event (Ev_open_rb svg_path) w"
  obtain r2 w2 where loop: "size_loop env d (sizes output_dir) [] w1 = (r2, w2)"
    by (cases "size_loop env d (sizes output_dir) [] w1")
  from size_loop_raster_fail[OF i _ loop] s fail
  obtain e evs where ev: "r2 = Inl e" "events w2 = events w1 @ evs"
    "set (write_targets evs) \<subseteq> snd ` set (take i (sizes output_dir))"
    "\<forall>p. p \<notin> snd ` set (take i (sizes output_dir)) \<longrightarrow> files w2 p = files w1 p"
    by auto
  from run d True loop ev(1) have res: "r = Inl e" "w' = w2"
    by (auto simp: create_favicon_from_svg_def read_file_def Let_def w1_def)
  have new: "new_events w w' = Ev_open_rb svg_path # evs"
    using ev(2) res by (simp add: w1_def new_events_def)
  have "take i (map snd (sizes output_dir)) = take i (output_paths output_dir)"
    using i by (simp add: output_paths_def)
  then have "snd ` set (take i (sizes output_dir)) = set (take i (output_paths output_dir))"
    by (metis list.set_map take_map)
  moreover have "output_paths output_dir ! j \<notin> set (take i (output_paths output_dir))"
    using nth_notin_take[OF distinct_output_paths j] .
  ultimately have out: "output_paths output_dir ! j \<notin> snd ` set (take i (sizes output_dir))"
    by simp
  show ?thesis
    using res new ev(3,4) out run_write_after_raster[OF run]
    by (auto simp: w1_def)
qed

theorem raster_failure_leaves_files_witness:
  "files (ex_world ex_svg) ''static/favicon.svg'' = Some ex_svg
   \<and> (1::nat) < length (sizes ''static'') \<and> fst (sizes ''static'' ! 1) = 32
   \<and> svg2png ex_env_no32 ex_svg 32 32 = None
   \<and> create_favicon_from_svg ex_env_no32 ''static/favicon.svg'' ''static'' (ex_world ex_svg)
       = (Inl ConversionError, ex_stopped_at_32)
   \<and> (1::nat) \<le> 1 \<and> (1::nat) < length (output_paths ''static'')
   \<and> output_paths ''static'' ! 1 = ''static/favicon-32x32.png''
   \<and> write_after_raster ex_env_no32 (sizes ''static'')
        (new_events (ex_world ex_svg) ex_stopped_at_32)
   \<and> files ex_stopped_at_32 ''static/favicon-32x32.png''
       = files (ex_world ex_svg) ''static/favicon-32x32.png''
   \<and> ''static/favicon-32x32.png''
       \<notin> set (write_targets (new_events (ex_world ex_svg) ex_stopped_at_32))
   \<and> files ex_stopped_at_32 ''static/favicon-16x16.png'' = Some [16, 16]"
  using raster_failure_leaves_files
    [of "ex_world ex_svg" "''static/favicon.svg''" ex_svg 1 "''static''" 32 ex_env_no32
        "Inl ConversionError" ex_stopped_at_32 1]
    ex_no32_run
  by (simp add: ex_output_paths ex_sizes ex_world_def ex_env_no32_def ex_stopped_at_32_def)

text \<open>
  C8. A run that returns normally has opened for writing exactly the four paths
  \<open>favicon-16x16.png\<close>, \<open>favicon-32x32.png\<close>, \<open>apple-touch-icon.png\<close> and
  \<open>favicon.ico\<close>, joined to the output directory, each once and in this order. The
  four paths are distinct and all exist afterwards; the three PNG files hold what the
  rasterizer returned for the source, whatever they held before; every other path has
  the content it had before; and the messages printed are the four \<open>Created\<close> lines,
  with no warning among them.
\<close>

theorem exactly_four_files:
  assumes "create_favicon_from_svg env svg_path output_dir w = (Inr u, w')"
  shows "output_paths output_dir =
       [os_path_join output_dir ''favicon-16x16.png'',
        os_path_join output_dir ''favicon-32x32.png'',
        os_path_join output_dir ''apple-touch-icon.png'',
        os_path_join output_dir ''favicon.ico'']
     \<and> write_targets (new_events w w') = output_paths output_dir
     \<and> distinct (output_paths output_dir)
     \<and> (\<forall>p \<in> set (output_paths output_dir). files w' p \<noteq> None)
     \<and> (\<forall>p. p \<notin> set (output_paths output_dir) \<longrightarrow> files w' p = files w p)
     \<and> (\<exists>d. files w svg_path = Some d
            \<and> files w' (os_path_join output_dir ''favicon-16x16.png'') = svg2png env d 16 16
            \<and> files w' (os_path_join output_dir ''favicon-32x32.png'') = svg2png env d 32 32
            \<and> files w' (os_path_join output_dir ''apple-touch-icon.png'')
                = svg2png env d 180 180)
     \<and> printed (new_events w w') = map created_msg (output_paths output_dir)"
proof -
  from run_ok_inv[OF assms] obtain d png16 png32 png180 img16 img32 ico where h:
    "files w svg_path = Some d" "can_read env svg_path"
    "svg2png env d 16 16 = Some png16"
    "svg2png env d 32 32 = Some png32"
    "svg2png env d 180 180 = Some png180"
    "Image_open env png16 = Some img16"
    "Image_open env png32 = Some img32"
    "load_ok env img16"
    "save_ICO env img16 ico_sizes = Some ico"
    "\<forall>p \<in> set (output_paths output_dir). can_write env p"
    "\<forall>p \<in> set (output_paths output_dir). can_print env (created_msg p)"
    by blast
  show ?thesis
    using assms distinct_output_paths[of output_dir] h(1,3,4,5) unfolding run_ok[OF h]
    by (auto simp: obs_defs output_paths_def sizes_def os_path_join_inj)
qed

theorem exactly_four_files_witness:
  "create_favicon_from_svg ex_env ''static/favicon.svg'' ''static'' (ex_world ex_svg)
     = (Inr (), ex_final)
   \<and> write_targets (new_events (ex_world ex_svg) ex_final)
       = [''static/favicon-16x16.png'', ''static/favicon-32x32.png'',
          ''static/apple-touch-icon.png'', ''static/favicon.ico'']
   \<and> files ex_final ''static/favicon-16x16.png'' \<noteq> None
   \<and> files ex_final ''static/favicon-32x32.png'' \<noteq> None
   \<and> files ex_final ''static/apple-touch-icon.png'' \<noteq> None
   \<and> files ex_final ''static/favicon.ico'' \<noteq> None
   \<and> files ex_final ''static/favicon.svg'' = files (ex_world ex_svg) ''static/favicon.svg''
   \<and> files ex_final ''static/other.png'' = files (ex_world ex_svg) ''static/other.png''
   \<and> printed (new_events (ex_world ex_svg) ex_final)
       = [created_msg ''static/favicon-16x16.png'', created_msg ''static/favicon-32x32.png'',
          created_msg ''static/apple-touch-icon.png'', created_msg ''static/favicon.ico'']"
  using exactly_four_files [OF ex_run] ex_run
  by (simp add: ex_output_paths ex_paths)

text \<open>
  C7. The outcome of a run depends on the world only through the bytes of the source.
  When two worlds hold the same bytes at the source path and the run returns normally
  from the first, it returns normally from the second as well, the four output files
  hold the same bytes after both runs, and both runs have made the same calls. Running
  the script again on the world it has left is the case where the second world is the
  result of the first run.
\<close>

theorem deterministic_outputs:
  assumes "files w1 svg_path = files w2 svg_path"
    and "create_favicon_from_svg env svg_path output_dir w1 = (Inr u, w1')"
    and "create_favicon_from_svg env svg_path output_dir w2 = (r2, w2')"
  shows "r2 = Inr ()
     \<and> (\<forall>p \<in> set (output_paths output_dir). files w1' p = files w2' p)
     \<and> new_events w1 w1' = new_events w2 w2'"
proof -
  from run_ok_inv[OF assms(2)] obtain d png16 png32 png180 img16 img32 ico where h:
    "files w1 svg_path = Some d" "can_read env svg_path"
    "svg2png env d 16 16 = Some png16"
    "svg2png env d 32 32 = Some png32"
    "svg2png env d 180 180 = Some png180"
    "Image_open env png16 = Some img16"
    "Image_open env png32 = Some img32"
    "load_ok env img16"
    "save_ICO env img16 ico_sizes = Some ico"
    "\<forall>p \<in> set (output_paths output_dir). can_write env p"
    "\<forall>p \<in> set (output_paths output_dir). can_print env (created_msg p)"
    by blast
  have h2: "files w2 svg_path = Some d" using h(1) assms(1) by simp
  show ?thesis
    using assms(2,3) unfolding run_ok[OF h] run_ok[OF h2 h(2-11)]
    by (auto simp: output_paths_def sizes_def)
qed

theorem deterministic_outputs_witness:
  "files (ex_world ex_svg) ''static/favicon.svg'' = files ex_final ''static/favicon.svg''
   \<and> create_favicon_from_svg ex_env ''static/favicon.svg'' ''static'' (ex_world ex_svg)
       = (Inr (), ex_final)
   \<and> fst (create_favicon_from_svg ex_env ''static/favicon.svg'' ''static'' ex_final) = Inr ()
   \<and> files ex_final ''static/favicon-16x16.png''
       = files (snd (create_favicon_from_svg ex_env ''static/favicon.svg'' ''static'' ex_final))
           ''static/favicon-16x16.png''
   \<and> files ex_final ''static/favicon-32x32.png''
       = files (snd (create_favicon_from_svg ex_env ''static/favicon.svg'' ''static'' ex_final))
           ''static/favicon-32x32.png''
   \<and> files ex_final ''static/apple-touch-icon.png''
       = files (snd (create_favicon_from_svg ex_env ''static/favicon.svg'' ''static'' ex_final))
           ''static/apple-touch-icon.png''
   \<and> files ex_final ''static/favicon.ico''
       = files (snd (create_favicon_from_svg ex_env ''static/favicon.svg'' ''static'' ex_final))
           ''static/favicon.ico''"
  using deterministic_outputs [OF ex_same_input ex_run ex_rerun_pair] ex_same_input ex_run
  by (simp add: ex_output_paths)

text \<open>
  C5. In a run that returns normally, \<open>save\<close> is called exactly once, on the image
  opened from the 16 pixel raster, with the path \<open>favicon.ico\<close> and
  \<open>sizes=[(16, 16), (32, 32)]\<close>; the content of \<open>favicon.ico\<close> is what the encoder
  returns for this image and these sizes; and the block that makes the ICO file gives
  the same result whatever follows the first image in the list of retained images, so
  the second retained image is never handed to the encoder.
\<close>

theorem ico_from_first_image_only:
  assumes "create_favicon_from_svg env svg_path output_dir w = (Inr u, w')"
  shows "\<exists>d png16 img16.
       files w svg_path = Some d \<and> svg2png env d 16 16 = Some png16
     \<and> Image_open env png16 = Some img16
     \<and> save_calls (new_events w w')
         = [(img16, os_path_join output_dir ''favicon.ico'', [(16, 16), (32, 32)])]
     \<and> files w' (os_path_join output_dir ''favicon.ico'')
         = save_ICO env img16 [(16, 16), (32, 32)]
     \<and> (\<forall>others v. ico_step env output_dir (img16 # others) v
                     = ico_step env output_dir [img16] v)"
proof -
  from run_ok_inv[OF assms] obtain d png16 png32 png180 img16 img32 ico where h:
    "files w svg_path = Some d" "can_read env svg_path"
    "svg2png env d 16 16 = Some png16"
    "svg2png env d 32 32 = Some png32"
    "svg2png env d 180 180 = Some png180"
    "Image_open env png16 = Some img16"
    "Image_open env png32 = Some img32"
    "load_ok env img16"
    "save_ICO env img16 ico_sizes = Some ico"
    "\<forall>p \<in> set (output_paths output_dir). can_write env p"
    "\<forall>p \<in> set (output_paths output_dir). can_print env (created_msg p)"
    by blast
  show ?thesis
    using assms h unfolding run_ok[OF h]
    by (auto simp: obs_defs ico_sizes_def ico_step_def)
qed

theorem ico_from_first_image_only_witness:
  "create_favicon_from_svg ex_env ''static/favicon.svg'' ''static'' (ex_world ex_svg)
     = (Inr (), ex_final)
   \<and> svg2png ex_env ex_svg 16 16 = Some [16, 16]
   \<and> Image_open ex_env [16, 16] = Some ex_img16
   \<and> save_calls (new_events (ex_world ex_svg) ex_final)
       = [(ex_img16, ''static/favicon.ico'', [(16, 16), (32, 32)])]
   \<and> files ex_final ''static/favicon.ico'' = save_ICO ex_env ex_img16 [(16, 16), (32, 32)]
   \<and> ico_step ex_env ''static'' [ex_img16, ex_img32] ex_final
       = ico_step ex_env ''static'' [ex_img16] ex_final"
  using ico_from_first_image_only [OF ex_run] ex_run ex_hyps(1,3,6)
  by (auto simp: ex_paths)

text \<open>
  C9. The script in the example: the loop retains the image opened from the 16 pixel
  buffer and the image opened from the 32 pixel buffer, in memory; the block that makes
  the ICO file hands the first of them to \<open>save\<close> and no other, so the retained 32 pixel
  image is not consumed.
\<close>

theorem retained_32_image_not_saved:
  "fst (size_loop ex_env ex_svg (sizes ''static'') []
          (snd (read_file ex_env ''static/favicon.svg'' (ex_world ex_svg))))
     = Inr [ex_img16, ex_img32]
   \<and> create_favicon_from_svg ex_env ''static/favicon.svg'' ''static'' (ex_world ex_svg)
       = (Inr (), ex_final)
   \<and> map fst (save_calls (events ex_final)) = [ex_img16]
   \<and> ex_img32 \<notin> set (map fst (save_calls (events ex_final)))"
  by (simp add: create_favicon_from_svg_def read_file_def ex_sizes prim_defs ico_step_def
      ex_paths ico_sizes_def ex_defs ex_final_def record_event_def Let_def
      save_calls_def)

text \<open>
  X1. In a run that returns normally, the loop retains exactly two images, those opened
  in memory from the buffers the rasterizer returned for the sizes 16 and 32 (none for
  180); the image that is saved is the first of this list; the only file the run opens
  for reading is the source, and the block that makes the ICO file opens no file for
  reading and decodes no buffer.
\<close>

theorem retained_images_in_memory:
  assumes "create_favicon_from_svg env svg_path output_dir w = (Inr u, w')"
  shows "\<exists>d png16 png32 img16 img32 w1 w2.
       read_file env svg_path w = (Inr d, w1)
     \<and> svg2png env d 16 16 = Some png16 \<and> svg2png env d 32 32 = Some png32
     \<and> Image_open env png16 = Some img16 \<and> Image_open env png32 = Some img32
     \<and> size_loop env d (sizes output_dir) [] w1 = (Inr [img16, img32], w2)
     \<and> ico_step env output_dir [img16, img32] w2 = (Inr (), w')
     \<and> Image_open_calls (new_events w1 w2) = [png16, png32]
     \<and> map fst (save_calls (new_events w2 w')) = [hd [img16, img32]]
     \<and> read_targets (new_events w w') = [svg_path]
     \<and> read_targets (new_events w2 w') = []
     \<and> Image_open_calls (new_events w2 w') = []"
proof -
  from run_ok_inv[OF assms] obtain d png16 png32 png180 img16 img32 ico where h:
    "files w svg_path = Some d" "can_read env svg_path"
    "svg2png env d 16 16 = Some png16"
    "svg2png env d 32 32 = Some png32"
    "svg2png env d 180 180 = Some png180"
    "Image_open env png16 = Some img16"
    "Image_open env png32 = Some img32"
    "load_ok env img16"
    "save_ICO env img16 ico_sizes = Some ico"
    "\<forall>p \<in> set (output_paths output_dir). can_write env p"
    "\<forall>p \<in> set (output_paths output_dir). can_print env (created_msg p)"
    by blast
  from assms have w': "w' = snd (create_favicon_from_svg env svg_path output_dir w)"
    by simp
  show ?thesis
    unfolding w' run_ok[OF h] using h
    by (simp add: run_defs obs_defs Let_def new_events_def record_event_def)
qed

theorem retained_images_in_memory_witness:
  "create_favicon_from_svg ex_env ''static/favicon.svg'' ''static'' (ex_world ex_svg)
     = (Inr (), ex_final)
   \<and> (\<exists>w1 w2.
        read_file ex_env ''static/favicon.svg'' (ex_world ex_svg) = (Inr ex_svg, w1)
      \<and> size_loop ex_env ex_svg (sizes ''static'') [] w1 = (Inr [ex_img16, ex_img32], w2)
      \<and> ico_step ex_env ''static'' [ex_img16, ex_img32] w2 = (Inr (), ex_final)
      \<and> Image_open_calls (new_events w1 w2) = [[16, 16], [32, 32]]
      \<and> map fst (save_calls (new_events w2 ex_final)) = [ex_img16]
      \<and> read_targets (new_events (ex_world ex_svg) ex_final) = [''static/favicon.svg'']
      \<and> read_targets (new_events w2 ex_final) = []
      \<and> Image_open_calls (new_events w2 ex_final) = [])"
  using retained_images_in_memory [OF ex_run] ex_run ex_hyps(1-7)
  by (auto simp: read_file_def Let_def)

text \<open>
  C1. The script in the example: the only call of \<open>save\<close> is made on the 16 pixel
  image, the image opened from the 32 pixel raster is a different one and takes no part,
  and with an encoder that ignores a size larger than the image, as Pillow's does,
  \<open>favicon.ico\<close> holds one frame, of 16 by 16, not two.
\<close>

theorem ico_example_single_frame:
  "create_favicon_from_svg ex_env ''static/favicon.svg'' ''static'' (ex_world ex_svg)
     = (Inr (), ex_final)
   \<and> save_calls (events ex_final)
       = [(ex_img16, ''static/favicon.ico'', [(16, 16), (32, 32)])]
   \<and> Image_open ex_env [32, 32] = Some ex_img32
   \<and> ex_img32 \<noteq> ex_img16
   \<and> files ex_final ''static/favicon.ico'' = Some [1, 16, 16]"
  by (simp add: create_favicon_from_svg_def read_file_def ex_sizes prim_defs ico_step_def
      ex_paths ico_sizes_def ex_defs ex_final_def record_event_def Let_def
      save_calls_def)

end
